theory Spec2Isabelle
  imports Complex_Main
begin

unbundle bit_operations_syntax

section \<open>Python and numpy primitives used by \<open>mne/filter.py\<close>\<close>

text \<open>
  Samples are modelled as exact reals and spectra as exact complex numbers; a
  two-dimensional array is the list of its rows (channels).
\<close>

type_synonym signal = "real list"
type_synonym array2d = "real list list"

text \<open>Exceptions the modelled code can raise, one constructor per raising place.\<close>

datatype error =
    NFftTooShort        \<comment> \<open>\<open>ValueError('n_fft is too short, has to be at least len(h)')\<close>, line 101\<close>
  | NegativeDimensions  \<comment> \<open>\<open>ValueError\<close> of \<open>np.zeros\<close> called with a negative length\<close>
  | EmptyArgmin         \<comment> \<open>\<open>ValueError\<close> of \<open>np.argmin\<close> on an empty array\<close>
  | Log2Domain          \<comment> \<open>\<open>np.log2\<close> of a non-positive number fed to \<open>np.arange\<close> or \<open>int\<close>\<close>
  | IndexOutOfRange     \<comment> \<open>\<open>IndexError\<close>\<close>
  | ShapeMismatch       \<comment> \<open>\<open>ValueError\<close> of a numpy assignment whose shapes do not broadcast\<close>
  | ZeroDivision        \<comment> \<open>\<open>ZeroDivisionError\<close> of a Python scalar division\<close>
  | TooManyAxes         \<comment> \<open>\<open>ValueError('x does not have %d axes')\<close>, line 1168\<close>

datatype warning =
    NotPower2                      \<comment> \<open>"FFT length is not a power of 2. Can be slower."\<close>
  | LowAttenuation real real       \<comment> \<open>"Attenuation at stop frequency ...Hz is only ...dB."\<close>
  | ZeroLength int                 \<comment> \<open>"x has zero length along axis=%d, returning a copy of x"\<close>

text \<open>
  The outcome of an operation that works in place on a two-dimensional array: the
  array as the call leaves it, the warnings issued, and the exception raised, if any.
\<close>

record outcome =
  data :: array2d
  warns :: "warning list"
  raised :: "error option"

text \<open>\<open>xs[i]\<close> with Python's negative indices.\<close>

definition py_index :: "'a list \<Rightarrow> int \<Rightarrow> error + 'a" where
  "py_index xs i =
     (if 0 \<le> i \<and> i < int (length xs) then Inr (xs ! nat i)
      else if i < 0 \<and> - int (length xs) \<le> i then Inr (xs ! nat (int (length xs) + i))
      else Inl IndexOutOfRange)"

text \<open>\<open>xs[a:b]\<close>: negative bounds count from the end, and both are clipped.\<close>

definition py_slice :: "'a list \<Rightarrow> int \<Rightarrow> int \<Rightarrow> 'a list" where
  "py_slice xs a b =
     (let n = int (length xs);
          a' = (if a < 0 then max (a + n) 0 else min a n);
          b' = (if b < 0 then max (b + n) 0 else min b n)
      in take (nat (b' - a')) (drop (nat a') xs))"

text \<open>\<open>xs[a:b:-1]\<close>: the elements at \<open>a, a-1, ...\<close> down to, not including, \<open>b\<close>.\<close>

definition py_slice_rev :: "'a list \<Rightarrow> int \<Rightarrow> int \<Rightarrow> 'a list" where
  "py_slice_rev xs a b =
     (let n = int (length xs);
          a' = (if a < 0 then max (a + n) (- 1) else min a (n - 1));
          b' = (if b < 0 then max (b + n) (- 1) else min b (n - 1))
      in map (\<lambda>k. xs ! nat (a' - int k)) [0..<nat (a' - b')])"

text \<open>\<open>floor(log2 n)\<close> and \<open>ceil(log2 n)\<close> for \<open>n \<ge> 1\<close>.\<close>

fun flog2 :: "nat \<Rightarrow> nat" where
  "flog2 n = (if n < 2 then 0 else Suc (flog2 (n div 2)))"

declare flog2.simps [simp del]

definition clog2 :: "nat \<Rightarrow> nat" where
  "clog2 n = (if n \<le> 1 then 0 else Suc (flog2 (n - 1)))"

text \<open>\<open>np.argmin\<close>: the first index of a least element; it raises on an empty array.\<close>

fun argmin :: "('a::linorder) list \<Rightarrow> nat option" where
  "argmin [] = None"
| "argmin (c # cs) =
     (case argmin cs of
        None \<Rightarrow> Some 0
      | Some j \<Rightarrow> if cs ! j < c then Some (Suc j) else Some 0)"

text \<open>\<open>ceil(a / b)\<close> for \<open>b > 0\<close>, in exact arithmetic.\<close>

definition ceil_div :: "int \<Rightarrow> int \<Rightarrow> int" where
  "ceil_div a b = - ((- a) div b)"

text \<open>\<open>is_power2\<close>, lines 20-41.\<close>

definition is_power2 :: "int \<Rightarrow> bool" where
  "is_power2 num = (num \<noteq> 0 \<and> (num AND (num - 1)) = 0)"

text \<open>\<open>x.shape[1]\<close> of an array given by its rows.\<close>

definition shape1 :: "array2d \<Rightarrow> nat" where
  "shape1 x = (case x of [] \<Rightarrow> 0 | r # _ \<Rightarrow> length r)"

text \<open>
  \<open>x[p] = r\<close> for a row index \<open>p\<close> and a one-dimensional \<open>r\<close>: numpy copies a row of
  the same length, repeats a single value along the row, and raises otherwise.
\<close>

definition assign_row :: "array2d \<Rightarrow> nat \<Rightarrow> signal \<Rightarrow> error + array2d" where
  "assign_row x p r =
     (if length x \<le> p then Inl IndexOutOfRange
      else if length r = length (x ! p) then Inr (x[p := r])
      else if length r = 1 then Inr (x[p := replicate (length (x ! p)) (hd r)])
      else Inl ShapeMismatch)"

text \<open>
  The loop \<open>for p in picks: x[p] = f(x[p])\<close> of the branches \<open>n_jobs == 1\<close>. A row
  written before an exception stays written.
\<close>

fun filter_rows_seq :: "(signal \<Rightarrow> error + signal) \<Rightarrow> array2d \<Rightarrow> nat list \<Rightarrow> array2d \<times> error option" where
  "filter_rows_seq f x [] = (x, None)"
| "filter_rows_seq f x (p # ps) =
     (if length x \<le> p then (x, Some IndexOutOfRange)
      else case f (x ! p) of
             Inl e \<Rightarrow> (x, Some e)
           | Inr r \<Rightarrow> (case assign_row x p r of
                         Inl e \<Rightarrow> (x, Some e)
                       | Inr x' \<Rightarrow> filter_rows_seq f x' ps))"

text \<open>
  The other branch: \<open>data_new = parallel(p_fun(x[p], ...) for p in picks)\<close>, then
  \<open>for pp, p in enumerate(picks): x[p] = data_new[pp]\<close>. Every result is computed
  from the rows as they were, before the first row is written.
\<close>

fun compute_rows :: "(signal \<Rightarrow> error + signal) \<Rightarrow> array2d \<Rightarrow> nat list \<Rightarrow> error + signal list" where
  "compute_rows f x [] = Inr []"
| "compute_rows f x (p # ps) =
     (if length x \<le> p then Inl IndexOutOfRange
      else case f (x ! p) of
             Inl e \<Rightarrow> Inl e
           | Inr r \<Rightarrow> (case compute_rows f x ps of
                         Inl e \<Rightarrow> Inl e
                       | Inr rs \<Rightarrow> Inr (r # rs)))"

fun assign_rows :: "array2d \<Rightarrow> (nat \<times> signal) list \<Rightarrow> array2d \<times> error option" where
  "assign_rows x [] = (x, None)"
| "assign_rows x ((p, r) # rest) =
     (case assign_row x p r of
        Inl e \<Rightarrow> (x, Some e)
      | Inr x' \<Rightarrow> assign_rows x' rest)"

definition filter_rows_par :: "(signal \<Rightarrow> error + signal) \<Rightarrow> array2d \<Rightarrow> nat list \<Rightarrow> array2d \<times> error option" where
  "filter_rows_par f x picks =
     (case compute_rows f x picks of
        Inl e \<Rightarrow> (x, Some e)
      | Inr rs \<Rightarrow> assign_rows x (zip picks rs))"

text \<open>
  Library routines that are not part of \<open>mne/filter.py\<close> are parameters of the model:
  \<open>firwin2\<close> (\<open>mne/fixes.py\<close>), \<open>scipy.fftpack.fft\<close>, \<open>fft_multiply_repeated\<close>
  (\<open>mne/cuda.py\<close>, the real part of the inverse transform of the product),
  \<open>dpss_windows\<close> and \<open>_mt_spectra\<close> (\<open>mne/time_frequency/multitaper.py\<close>; the window
  bank, and one spectrum per taper with the frequency axis), \<open>scipy.stats.f.ppf\<close>, and
  the stop-band attenuation \<open>_filter_attenuation\<close>, which is \<open>scipy.signal.freqz\<close>
  followed by a floating-point \<open>log10\<close>.
\<close>

record externals =
  firwin2 :: "nat \<Rightarrow> real list \<Rightarrow> real list \<Rightarrow> real list"
  fft :: "complex list \<Rightarrow> complex list"
  fft_multiply_repeated :: "complex list \<Rightarrow> signal \<Rightarrow> signal"
  filter_attenuation :: "real list \<Rightarrow> real list \<Rightarrow> real list \<Rightarrow> real \<times> real"
  dpss_windows :: "nat \<Rightarrow> real \<Rightarrow> int \<Rightarrow> real list list"
  mt_spectra :: "signal \<Rightarrow> real list list \<Rightarrow> real \<Rightarrow> complex list list \<times> real list"
  f_ppf :: "real \<Rightarrow> int \<Rightarrow> int \<Rightarrow> real"

section \<open>The overlap-add engine\<close>

text \<open>
  Lines 87-98 of \<open>_overlap_add_filter\<close>, the choice of the FFT length when none is
  given. \<open>np.arange(a, b)\<close> stops before \<open>b\<close>, and \<open>np.argmin\<close> returns the first
  least entry. In line 94 the quotient \<open>n_tot / (N - n_h + 1)\<close> divides integers; the
  module is Python 2 without \<open>from __future__ import division\<close>, so the quotient is
  the floor and \<open>np.ceil\<close> leaves it as it is. \<open>n_x\<close> is the length of the extended
  signal, \<open>x.shape[1] + 2 * n_edge - 2\<close>, negative for an empty row.
\<close>

definition fft_sizes :: "nat \<Rightarrow> int \<Rightarrow> nat list" where
  "fft_sizes n_h n_tot = map (\<lambda>k. 2 ^ k) [clog2 n_h..<flog2 (nat n_tot)]"

definition cost :: "nat \<Rightarrow> int \<Rightarrow> nat \<Rightarrow> int" where
  "cost n_h n_tot N = (n_tot div (int N - int n_h + 1)) * int N * (int (flog2 N) + 1)"

definition choose_n_fft :: "nat \<Rightarrow> int \<Rightarrow> bool \<Rightarrow> error + int" where
  "choose_n_fft n_h n_x zero_phase =
     (if n_x > int n_h then
        let n_tot = (if zero_phase then 2 * n_x else n_x) in
        if n_h = 0 then Inl Log2Domain
        else let N = fft_sizes n_h n_tot
             in case argmin (map (cost n_h n_tot) N) of
                  None \<Rightarrow> Inl EmptyArgmin
                | Some i \<Rightarrow> Inr (int (N ! i))
      else if n_x + int n_h - 1 \<le> 0 then Inl Log2Domain
      else Inr (2 ^ clog2 (nat (n_x + int n_h - 1))))"

text \<open>
  Lines 109-116: the zero-phase rescaling of the kernel spectrum,
  \<open>idx = np.where(np.abs(h_fft) > 1e-6)\<close> and
  \<open>h_fft[idx] = h_fft[idx] / np.sqrt(np.abs(h_fft[idx]))\<close>.
\<close>

definition scale_h_fft :: "complex list \<Rightarrow> complex list" where
  "scale_h_fft h_fft =
     map (\<lambda>H. if cmod H > 1 / 10 ^ 6 then H / complex_of_real (sqrt (cmod H)) else H) h_fft"

text \<open>
  Lines 149-150 of \<open>_1d_overlap_filter\<close>:
  \<open>x_ext = np.r_[2 * x[0] - x[n_edge - 1:0:-1], x, 2 * x[-1] - x[-2:-n_edge - 1:-1]]\<close>.
  \<open>x[0]\<close> raises on an empty row.
\<close>

definition x_ext :: "signal \<Rightarrow> nat \<Rightarrow> error + signal" where
  "x_ext x n_edge =
     (if x = [] then Inl IndexOutOfRange
      else Inr (map (\<lambda>v. 2 * hd x - v) (py_slice_rev x (int n_edge - 1) 0)
                @ x
                @ map (\<lambda>v. 2 * last x - v) (py_slice_rev x (- 2) (- int n_edge - 1))))"

text \<open>
  \<open>x_filtered[a:b] += prd\<close>: the slice is clipped to the array, and \<open>prod\<close> must
  have the length of the slice or be a single value.
\<close>

definition add_block :: "signal \<Rightarrow> nat \<Rightarrow> nat \<Rightarrow> signal \<Rightarrow> error + signal" where
  "add_block xf a b prd =
     (let a' = min a (length xf); b' = min b (length xf); m = b' - a'
      in if length prd = m
         then Inr (take a' xf @ map2 (+) (take m (drop a' xf)) prd @ drop (a' + m) xf)
         else if length prd = 1
         then Inr (take a' xf @ map (\<lambda>v. v + hd prd) (take m (drop a' xf)) @ drop (a' + m) xf)
         else Inl ShapeMismatch)"

text \<open>
  Lines 162-170, one pass over the segments \<open>seg_idx\<close>: cut the segment, pad it with
  zeros to \<open>n_fft\<close>, multiply in the frequency domain, add the block to the output.
\<close>

fun ola_segments :: "externals \<Rightarrow> complex list \<Rightarrow> nat \<Rightarrow> nat \<Rightarrow> nat \<Rightarrow> signal \<Rightarrow> nat list \<Rightarrow> signal \<Rightarrow> error + signal" where
  "ola_segments ext h_fft n_fft n_seg n_x filter_input [] x_filtered = Inr x_filtered"
| "ola_segments ext h_fft n_fft n_seg n_x filter_input (seg_idx # rest) x_filtered =
     (let seg = py_slice filter_input (int (seg_idx * n_seg)) (int ((seg_idx + 1) * n_seg))
      in if n_fft < length seg then Inl NegativeDimensions
         else let seg' = seg @ replicate (n_fft - length seg) 0;
                  prd = fft_multiply_repeated ext h_fft seg'
              in case (if seg_idx * n_seg + n_fft < n_x
                       then add_block x_filtered (seg_idx * n_seg) (seg_idx * n_seg + n_fft) prd
                       else add_block x_filtered (seg_idx * n_seg) n_x
                              (take (n_x - seg_idx * n_seg) prd)) of
                   Inl e \<Rightarrow> Inl e
                 | Inr xf \<Rightarrow> ola_segments ext h_fft n_fft n_seg n_x filter_input rest xf)"

text \<open>
  \<open>_1d_overlap_filter\<close>, lines 151-180, on the extended signal: filter in one pass
  or (zero phase) in two, the second on the reversed output of the first, strip the
  edges with \<open>x_filtered[n_edge - 1:-n_edge + 1]\<close> and reverse back.
\<close>

definition filter_extended :: "externals \<Rightarrow> signal \<Rightarrow> complex list \<Rightarrow> nat \<Rightarrow> nat \<Rightarrow> bool \<Rightarrow> nat \<Rightarrow> nat \<Rightarrow> error + signal" where
  "filter_extended ext xe h_fft n_edge n_fft zero_phase n_segments n_seg =
     (let n_x = length xe;
          pass = (\<lambda>inp. ola_segments ext h_fft n_fft n_seg n_x inp [0..<n_segments]
                           (replicate n_x 0))
      in case pass xe of
           Inl e \<Rightarrow> Inl e
         | Inr xf1 \<Rightarrow>
             (case (if zero_phase then pass (rev xf1) else Inr xf1) of
                Inl e \<Rightarrow> Inl e
              | Inr xf \<Rightarrow>
                  let stripped = py_slice xf (int n_edge - 1) (- int n_edge + 1)
                  in Inr (if zero_phase then rev stripped else stripped)))"

text \<open>
  \<open>_1d_overlap_filter\<close>, lines 145-180: the channel is extended (lines 149-150) and
  the extended signal is filtered.
\<close>

definition overlap_filter_1d :: "externals \<Rightarrow> signal \<Rightarrow> complex list \<Rightarrow> nat \<Rightarrow> nat \<Rightarrow> bool \<Rightarrow> nat \<Rightarrow> nat \<Rightarrow> error + signal" where
  "overlap_filter_1d ext x h_fft n_edge n_fft zero_phase n_segments n_seg =
     (case x_ext x n_edge of
        Inl e \<Rightarrow> Inl e
      | Inr xe \<Rightarrow> filter_extended ext xe h_fft n_edge n_fft zero_phase n_segments n_seg)"

text \<open>
  \<open>_overlap_add_filter\<close>, lines 44-142. \<open>n_fft = None\<close> is \<open>None\<close>, \<open>picks = None\<close>
  is \<open>None\<close>; \<open>picks\<close> are row numbers. \<open>n_jobs\<close> is an integer (the string
  \<open>'cuda'\<close> selects an accelerated multiply in \<open>mne/cuda.py\<close> and is not modelled).
  \<open>np.zeros(n_fft - n_h)\<close> of line 107 raises when \<open>n_fft < n_h\<close>.
\<close>

definition overlap_add_filter :: "externals \<Rightarrow> array2d \<Rightarrow> real list \<Rightarrow> int option \<Rightarrow> bool \<Rightarrow> nat list option \<Rightarrow> int \<Rightarrow> outcome" where
  "overlap_add_filter ext x h n_fft zero_phase picks n_jobs =
     (let picks' = (case picks of None \<Rightarrow> [0..<length x] | Some ps \<Rightarrow> ps);
          n_h = length h;
          n_edge = min n_h (shape1 x);
          n_x = int (shape1 x) + 2 * int n_edge - 2
      in case (case n_fft of None \<Rightarrow> choose_n_fft n_h n_x zero_phase | Some n \<Rightarrow> Inr n) of
           Inl e \<Rightarrow> \<lparr>data = x, warns = [], raised = Some e\<rparr>
         | Inr n \<Rightarrow>
             if n \<le> 0 then \<lparr>data = x, warns = [], raised = Some NFftTooShort\<rparr>
             else
               let ws = (if \<not> is_power2 n then [NotPower2] else []) in
               if n - int n_h < 0 then \<lparr>data = x, warns = ws, raised = Some NegativeDimensions\<rparr>
               else
                 let h0 = fft ext (map complex_of_real h @ replicate (nat (n - int n_h)) 0);
                     h_fft = (if zero_phase then scale_h_fft h0 else h0);
                     n_seg = n - int n_h + 1;
                     n_segments = \<lceil>real_of_int n_x / real_of_int n_seg\<rceil>;
                     f = (\<lambda>row. overlap_filter_1d ext row h_fft n_edge (nat n) zero_phase
                                  (nat n_segments) (nat n_seg));
                     res = (if n_jobs = 1 then filter_rows_seq f x picks'
                            else filter_rows_par f x picks')
                 in \<lparr>data = fst res, warns = ws, raised = snd res\<rparr>)"

section \<open>The direct FFT engine and \<open>_filter\<close>\<close>

text \<open>
  \<open>_1d_fftmult_ext\<close>, lines 197-211: \<open>x[-1]\<close> raises on an empty row, \<open>xf[:-1]\<close>
  drops the last sample.
\<close>

definition fftmult_ext_1d :: "externals \<Rightarrow> signal \<Rightarrow> complex list \<Rightarrow> bool \<Rightarrow> error + signal" where
  "fftmult_ext_1d ext x B extnd =
     (if extnd then
        (case py_index x (- 1) of
           Inl e \<Rightarrow> Inl e
         | Inr l \<Rightarrow> Inr (py_slice (fft_multiply_repeated ext B (x @ [l])) 0 (- 1)))
      else Inr (fft_multiply_repeated ext B x))"

text \<open>
  Lines 279-285 (direct branch): \<open>extend_x\<close> is set when
  \<open>gain[-1] == 0.0 and Norig % 2 == 1\<close> or \<open>gain[-1] == 1.0 and Norig % 2 != 1\<close>,
  and the kernel length is \<open>N = x.shape[1] + (extend_x is True)\<close>.
\<close>

definition extend_x :: "real \<Rightarrow> nat \<Rightarrow> bool" where
  "extend_x gain_last Norig =
     ((gain_last = 0 \<and> Norig mod 2 = 1) \<or> (gain_last = 1 \<and> Norig mod 2 \<noteq> 1))"

definition direct_N :: "real \<Rightarrow> nat \<Rightarrow> nat" where
  "direct_N gain_last Norig = Norig + (if extend_x gain_last Norig then 1 else 0)"

text \<open>
  Lines 314-319 (overlap-add branch): \<open>N = filter_length\<close>, and \<open>N += 1\<close> under the
  same condition on \<open>N\<close>.
\<close>

definition ola_N :: "real \<Rightarrow> nat \<Rightarrow> nat" where
  "ola_N gain_last filter_length =
     (if (gain_last = 0 \<and> filter_length mod 2 = 1) \<or> (gain_last = 1 \<and> filter_length mod 2 \<noteq> 1)
      then filter_length + 1 else filter_length)"

text \<open>
  \<open>_filter\<close>, lines 226-335, on an array already two-dimensional. The result is the
  working array, a copy of the argument when \<open>copy\<close> is true. The attenuation warning
  is issued below 20 dB, with 6 dB added in the overlap-add branch.
\<close>

definition filter_fir :: "externals \<Rightarrow> array2d \<Rightarrow> real \<Rightarrow> real list \<Rightarrow> real list \<Rightarrow> nat option \<Rightarrow> nat list option \<Rightarrow> int \<Rightarrow> outcome" where
  "filter_fir ext x Fs freq gain filter_length picks n_jobs =
     (let picks' = (case picks of None \<Rightarrow> [0..<length x] | Some ps \<Rightarrow> ps);
          min_att_db = 20;
          freq' = map (\<lambda>f. f / (Fs / 2)) freq
      in case py_index gain (- 1) of
           Inl e \<Rightarrow> \<lparr>data = x, warns = [], raised = Some e\<rparr>
         | Inr gain_last \<Rightarrow>
             if (case filter_length of None \<Rightarrow> True | Some fl \<Rightarrow> shape1 x \<le> fl) then
               let Norig = shape1 x;
                   extnd = extend_x gain_last Norig;
                   N = direct_N gain_last Norig;
                   H = firwin2 ext N freq' gain;
                   att = filter_attenuation ext H freq' gain;
                   ws = (if fst att < min_att_db
                         then [LowAttenuation (snd att * (Fs / 2)) (fst att)] else []);
                   B = map (\<lambda>c. complex_of_real (cmod c)) (fft ext (map complex_of_real H));
                   f = (\<lambda>row. fftmult_ext_1d ext row B extnd);
                   res = (if n_jobs = 1 then filter_rows_seq f x picks'
                          else filter_rows_par f x picks')
               in \<lparr>data = fst res, warns = ws, raised = snd res\<rparr>
             else
               let N = ola_N gain_last (the filter_length);
                   H = firwin2 ext N freq' gain;
                   att = filter_attenuation ext H freq' gain;
                   att_db = fst att + 6;
                   ws = (if att_db < min_att_db
                         then [LowAttenuation (snd att * (Fs / 2)) att_db] else []);
                   r = overlap_add_filter ext x H None True (Some picks') n_jobs
               in r\<lparr>warns := ws @ warns r\<rparr>)"

section \<open>Line-noise removal by multitaper spectrum fitting\<close>

text \<open>
  \<open>tapers_odd = np.arange(0, n_tapers, 2)\<close> and
  \<open>tapers_even = np.arange(1, n_tapers, 2)\<close>, lines 1060-1061.
\<close>

definition tapers_odd :: "nat \<Rightarrow> nat list" where
  "tapers_odd n_tapers = filter even [0..<n_tapers]"

definition tapers_even :: "nat \<Rightarrow> nat list" where
  "tapers_even n_tapers = filter odd [0..<n_tapers]"

text \<open>
  Lines 1065-1081. \<open>H0\<close> sums each used taper over time, \<open>H0_sq\<close> sums the squares,
  and the amplitude at bin \<open>f\<close> is \<open>A = x_p_H0 / H0_sq\<close>. \<open>x_p\<close> holds one
  spectrum per taper.
\<close>

definition H0_of :: "real list list \<Rightarrow> real list" where
  "H0_of window_fun = map (\<lambda>k. sum_list (window_fun ! k)) (tapers_odd (length window_fun))"

definition H0_sq_of :: "real list \<Rightarrow> real" where
  "H0_sq_of H0 = (\<Sum>h\<leftarrow>H0. h ^ 2)"

definition x_p_H0 :: "complex list list \<Rightarrow> real list \<Rightarrow> nat \<Rightarrow> nat \<Rightarrow> complex" where
  "x_p_H0 x_p H0 n_tapers f =
     (\<Sum>(k, h)\<leftarrow>zip (tapers_odd n_tapers) H0. x_p ! k ! f * complex_of_real h)"

definition amplitude :: "complex list list \<Rightarrow> real list \<Rightarrow> nat \<Rightarrow> nat \<Rightarrow> complex" where
  "amplitude x_p H0 n_tapers f = x_p_H0 x_p H0 n_tapers f / complex_of_real (H0_sq_of H0)"

text \<open>
  Lines 1087-1095, the F statistic of bin \<open>f\<close>. \<open>den[den == 0] = np.inf\<close> makes the
  quotient of a zero denominator \<open>num / inf\<close>, which is \<open>0\<close>.
\<close>

definition f_num :: "complex list list \<Rightarrow> real list \<Rightarrow> nat \<Rightarrow> nat \<Rightarrow> real" where
  "f_num x_p H0 n_tapers f =
     (real n_tapers - 1) * (cmod (amplitude x_p H0 n_tapers f)) ^ 2 * H0_sq_of H0"

definition f_den :: "complex list list \<Rightarrow> real list \<Rightarrow> nat \<Rightarrow> nat \<Rightarrow> real" where
  "f_den x_p H0 n_tapers f =
     (\<Sum>(k, h)\<leftarrow>zip (tapers_odd n_tapers) H0.
          (cmod (x_p ! k ! f - amplitude x_p H0 n_tapers f * complex_of_real h)) ^ 2)
     + (\<Sum>k\<leftarrow>tapers_even n_tapers. (cmod (x_p ! k ! f)) ^ 2)"

definition f_stat :: "complex list list \<Rightarrow> real list \<Rightarrow> nat \<Rightarrow> nat \<Rightarrow> real" where
  "f_stat x_p H0 n_tapers f =
     (if f_den x_p H0 n_tapers f = 0 then 0
      else f_num x_p H0 n_tapers f / f_den x_p H0 n_tapers f)"

text \<open>
  Lines 1097-1100: \<open>threshold = stats.f.ppf(1 - p_value / n_times, 2, 2 * n_tapers - 2)\<close>
  and \<open>indices = np.where(f_stat > threshold)[1]\<close>.
\<close>

definition threshold :: "externals \<Rightarrow> real \<Rightarrow> nat \<Rightarrow> nat \<Rightarrow> real" where
  "threshold ext p_value n_times n_tapers =
     f_ppf ext (1 - p_value / real n_times) 2 (2 * int n_tapers - 2)"

definition detected_indices :: "externals \<Rightarrow> complex list list \<Rightarrow> real list \<Rightarrow> nat \<Rightarrow> nat \<Rightarrow> real \<Rightarrow> nat \<Rightarrow> nat list" where
  "detected_indices ext x_p H0 n_tapers n_freqs p_value n_times =
     filter (\<lambda>f. f_stat x_p H0 n_tapers f > threshold ext p_value n_times n_tapers) [0..<n_freqs]"

text \<open>
  Lines 1104-1110, explicit line frequencies. \<open>notch_widths\<close> is the array after
  \<open>notch_widths /= 2.0\<close>; \<open>np.unique\<close> sorts and removes duplicates.
\<close>

fun indices_1 :: "real list \<Rightarrow> real list \<Rightarrow> error + nat list" where
  "indices_1 freqs [] = Inr []"
| "indices_1 freqs (lf # lfs) =
     (case argmin (map (\<lambda>fr. \<bar>fr - lf\<bar>) freqs) of
        None \<Rightarrow> Inl EmptyArgmin
      | Some i \<Rightarrow> (case indices_1 freqs lfs of Inl e \<Rightarrow> Inl e | Inr js \<Rightarrow> Inr (i # js)))"

definition indices_2 :: "real list \<Rightarrow> real list \<Rightarrow> real list \<Rightarrow> nat list" where
  "indices_2 freqs line_freqs notch_widths =
     filter (\<lambda>i. list_ex (\<lambda>(lf, nw). freqs ! i > lf - nw \<and> freqs ! i < lf + nw)
                    (zip line_freqs notch_widths))
            [0..<length freqs]"

text \<open>
  Lines 1113-1125: one sinusoid \<open>np.abs(c) * np.cos(freqs[ind] * rads + np.angle(c))\<close>
  with \<open>c = 2 * A[0, ind]\<close> per selected bin, summed and subtracted from the data;
  \<open>rads = 2 * np.pi * (np.arange(n_times) / float(sfreq))\<close>.
\<close>

definition datafit :: "complex list list \<Rightarrow> real list \<Rightarrow> nat \<Rightarrow> real list \<Rightarrow> real \<Rightarrow> nat list \<Rightarrow> nat \<Rightarrow> real" where
  "datafit x_p H0 n_tapers freqs sfreq indices t =
     (\<Sum>ind\<leftarrow>indices.
        let c = 2 * amplitude x_p H0 n_tapers ind
        in cmod c * cos (freqs ! ind * (2 * pi * (real t / sfreq)) + Arg c))"

record mt_result =
  cleaned :: signal          \<comment> \<open>\<open>x - datafit\<close>\<close>
  rm_freqs :: "real list"
  widths :: "real list"      \<comment> \<open>the array \<open>notch_widths\<close> as the call leaves it\<close>

text \<open>
  \<open>_mt_spectrum_remove\<close>, lines 1039-1081, the part common to both modes: the
  number of tapers, \<open>H0\<close>, the spectra \<open>x_p\<close> and the frequency axis.
  \<open>int(2 * half_nbw)\<close> truncates towards zero; the division by \<open>2 * sfreq\<close> is a
  Python scalar division.
\<close>

definition mt_setup :: "externals \<Rightarrow> signal \<Rightarrow> real \<Rightarrow> real option \<Rightarrow> error + nat \<times> real list \<times> complex list list \<times> real list" where
  "mt_setup ext x sfreq mt_bandwidth =
     (let n_times = length x in
      case (case mt_bandwidth of
              None \<Rightarrow> Inr 4
            | Some bw \<Rightarrow> if 2 * sfreq = 0 then Inl ZeroDivision
                        else Inr (bw * real n_times / (2 * sfreq))) of
        Inl e \<Rightarrow> Inl e
      | Inr half_nbw \<Rightarrow>
          let n_tapers_max = (if 0 \<le> 2 * half_nbw then \<lfloor>2 * half_nbw\<rfloor> else \<lceil>2 * half_nbw\<rceil>);
              window_fun = dpss_windows ext n_times half_nbw n_tapers_max;
              sp = mt_spectra ext x window_fun sfreq
          in Inr (length window_fun, H0_of window_fun, fst sp, snd sp))"

text \<open>
  \<open>_mt_spectrum_remove\<close>, lines 1083-1125. \<open>line_freqs = None\<close> is \<open>None\<close>. The
  division by \<open>n_times\<close> in the threshold is a Python scalar division.
\<close>

definition mt_spectrum_remove :: "externals \<Rightarrow> signal \<Rightarrow> real \<Rightarrow> real list option \<Rightarrow> real list \<Rightarrow> real option \<Rightarrow> real \<Rightarrow> error + mt_result" where
  "mt_spectrum_remove ext x sfreq line_freqs notch_widths mt_bandwidth p_value =
     (case mt_setup ext x sfreq mt_bandwidth of
        Inl e \<Rightarrow> Inl e
      | Inr (n_tapers, H0, x_p, freqs) \<Rightarrow>
          let n_times = length x;
              finish = (\<lambda>indices nw.
                 Inr \<lparr>cleaned = map (\<lambda>t. x ! t - datafit x_p H0 n_tapers freqs sfreq indices t)
                                   [0..<n_times],
                      rm_freqs = map (\<lambda>i. freqs ! i) indices,
                      widths = nw\<rparr>)
          in case line_freqs of
               None \<Rightarrow>
                 if n_times = 0 then Inl ZeroDivision
                 else finish (detected_indices ext x_p H0 n_tapers (length freqs) p_value n_times)
                             notch_widths
             | Some lfs \<Rightarrow>
                 (case indices_1 freqs lfs of
                    Inl e \<Rightarrow> Inl e
                  | Inr i1 \<Rightarrow>
                      let nw = map (\<lambda>w. w / 2) notch_widths;
                          i2 = indices_2 freqs lfs nw
                      in finish (sort (remdups (i1 @ i2))) nw))"

text \<open>
  The state of \<open>_mt_spectrum_proc\<close>: the array, the shared array \<open>notch_widths\<close>, the
  frequency lists collected in \<open>freq_list\<close>, and the exception raised, if any.
\<close>

record mt_outcome =
  mt_data :: array2d
  mt_widths :: "real list"
  freq_list :: "real list list"
  mt_raised :: "error option"

text \<open>
  Lines 998-1005, \<open>n_jobs == 1\<close>: \<open>for ii, x_ in enumerate(x): if ii in picks: ...\<close>.
  Each call receives the same array object \<open>notch_widths\<close>.
\<close>

fun mt_rows_seq :: "(signal \<Rightarrow> real list \<Rightarrow> error + mt_result) \<Rightarrow> nat list \<Rightarrow> nat list \<Rightarrow> mt_outcome \<Rightarrow> mt_outcome" where
  "mt_rows_seq rm picks [] s = s"
| "mt_rows_seq rm picks (ii # rest) s =
     (if ii \<in> set picks then
        (case rm (mt_data s ! ii) (mt_widths s) of
           Inl e \<Rightarrow> s\<lparr>mt_raised := Some e\<rparr>
         | Inr r \<Rightarrow>
             (case assign_row (mt_data s) ii (cleaned r) of
                Inl e \<Rightarrow> s\<lparr>mt_widths := widths r, mt_raised := Some e\<rparr>
              | Inr x' \<Rightarrow>
                  mt_rows_seq rm picks rest
                    (s\<lparr>mt_data := x', mt_widths := widths r,
                       freq_list := freq_list s @ [rm_freqs r]\<rparr>)))
      else mt_rows_seq rm picks rest s)"

text \<open>
  Lines 1009-1016, the other branch.

  Modelled from the spec: \<open>parallel_func\<close> (\<open>mne/parallel.py\<close>) is "a generic
  order-preserving parallel-map executor" whose workers are independent, so every call
  starts from the caller's \<open>notch_widths\<close>. The rows with a number in \<open>picks\<close> are
  processed in row order, and \<open>x[picks, :] = data_new\<close> writes result \<open>k\<close> to row
  \<open>picks[k]\<close>; a single result is repeated, any other mismatch of the counts raises.
\<close>

fun mt_compute :: "(signal \<Rightarrow> real list \<Rightarrow> error + mt_result) \<Rightarrow> array2d \<Rightarrow> real list \<Rightarrow> nat list \<Rightarrow> error + mt_result list" where
  "mt_compute rm x nw [] = Inr []"
| "mt_compute rm x nw (ii # rest) =
     (case rm (x ! ii) nw of
        Inl e \<Rightarrow> Inl e
      | Inr r \<Rightarrow> (case mt_compute rm x nw rest of Inl e \<Rightarrow> Inl e | Inr rs \<Rightarrow> Inr (r # rs)))"

definition mt_rows_par :: "(signal \<Rightarrow> real list \<Rightarrow> error + mt_result) \<Rightarrow> nat list \<Rightarrow> array2d \<Rightarrow> real list \<Rightarrow> mt_outcome" where
  "mt_rows_par rm picks x nw =
     (case mt_compute rm x nw (filter (\<lambda>ii. ii \<in> set picks) [0..<length x]) of
        Inl e \<Rightarrow> \<lparr>mt_data = x, mt_widths = nw, freq_list = [], mt_raised = Some e\<rparr>
      | Inr rs \<Rightarrow>
          let fl = map rm_freqs rs;
              rows = (if length rs = length picks then map cleaned rs
                      else replicate (length picks) (cleaned (hd rs)));
              res = (if list_ex (\<lambda>p. length x \<le> p) picks then (x, Some IndexOutOfRange)
                     else if length rs = length picks \<or> length rs = 1
                     then assign_rows x (zip picks rows)
                     else (x, Some ShapeMismatch))
          in \<lparr>mt_data = fst res, mt_widths = nw, freq_list = fl, mt_raised = snd res\<rparr>)"

text \<open>
  \<open>_mt_spectrum_proc\<close>, lines 993-1028, on an array already two-dimensional.
\<close>

definition mt_spectrum_proc :: "externals \<Rightarrow> array2d \<Rightarrow> real \<Rightarrow> real list option \<Rightarrow> real list \<Rightarrow> real option \<Rightarrow> real \<Rightarrow> nat list option \<Rightarrow> int \<Rightarrow> mt_outcome" where
  "mt_spectrum_proc ext x sfreq line_freqs notch_widths mt_bandwidth p_value picks n_jobs =
     (let picks' = (case picks of None \<Rightarrow> [0..<length x] | Some ps \<Rightarrow> ps);
          rm = (\<lambda>row nw. mt_spectrum_remove ext row sfreq line_freqs nw mt_bandwidth p_value)
      in if n_jobs = 1
         then mt_rows_seq rm picks' [0..<length x]
                \<lparr>mt_data = x, mt_widths = notch_widths, freq_list = [], mt_raised = None\<rparr>
         else mt_rows_par rm picks' x notch_widths)"

section \<open>Resampling\<close>

text \<open>
  \<open>resample\<close>, lines 1128-1199, on an array given by its shape and its elements.
  The branch \<open>x_len > 0\<close> (padding, \<open>scipy.signal.resample\<close>, trimming) is the
  parameter \<open>resample_body\<close>; the other branch warns and returns \<open>x.copy()\<close>.
\<close>

record ndarray =
  shape :: "nat list"
  elems :: "real list"

definition resample :: "(ndarray \<Rightarrow> real \<Rightarrow> nat \<Rightarrow> int \<Rightarrow> ndarray) \<Rightarrow> ndarray \<Rightarrow> real \<Rightarrow> real \<Rightarrow> nat \<Rightarrow> int \<Rightarrow> error + warning list \<times> ndarray" where
  "resample resample_body x up down npad axis =
     (if down = 0 then Inl ZeroDivision
      else let ratio = up / down in
        if axis > int (length (shape x)) then Inl TooManyAxes
        else case py_index (shape x) axis of
               Inl e \<Rightarrow> Inl e
             | Inr x_len \<Rightarrow>
                 if x_len > 0 then Inr ([], resample_body x ratio npad axis)
                 else Inr ([ZeroLength axis], x))"

section \<open>A concrete instance of the library routines\<close>

text \<open>
  For evaluating the model on small inputs. \<open>fft\<close> and \<open>fft_multiply_repeated\<close> are
  the discrete Fourier transform and the real part of the inverse transform of the
  product, exact up to length two. The frequency axis of \<open>mt_spectra\<close> is the
  non-negative part of \<open>fftfreq(n, 1 / sfreq)\<close>, and \<open>f_ppf\<close> is the quantile
  function of the F distribution with \<open>(2, 2)\<close> degrees of freedom. The tapers and the
  per-taper spectra are stand-ins: flat tapers of unit sum, and the spectrum of taper
  \<open>k\<close> at bin \<open>f\<close> read off the data at \<open>(f + k) mod n\<close>.
\<close>

definition small_fft :: "complex list \<Rightarrow> complex list" where
  "small_fft xs = (case xs of [a, b] \<Rightarrow> [a + b, a - b] | _ \<Rightarrow> xs)"

definition small_fft_multiply :: "complex list \<Rightarrow> signal \<Rightarrow> signal" where
  "small_fft_multiply H s =
     (case (H, s) of
        ([h0], [s0]) \<Rightarrow> [Re (h0 * complex_of_real s0)]
      | ([h0, h1], [s0, s1]) \<Rightarrow>
          [Re ((h0 * complex_of_real (s0 + s1) + h1 * complex_of_real (s0 - s1)) / 2),
           Re ((h0 * complex_of_real (s0 + s1) - h1 * complex_of_real (s0 - s1)) / 2)]
      | _ \<Rightarrow> s)"

definition demo_ext :: externals where
  "demo_ext =
     \<lparr>firwin2 = (\<lambda>N fr g. replicate N 1),
      fft = small_fft,
      fft_multiply_repeated = small_fft_multiply,
      filter_attenuation = (\<lambda>H fr g. (40, 0)),
      dpss_windows = (\<lambda>n hb k. replicate (nat k) (replicate n (1 / real n))),
      mt_spectra = (\<lambda>x w sf.
         (map (\<lambda>k. map (\<lambda>f. complex_of_real (x ! ((f + k) mod length x)))
                      [0..<(length x + 1) div 2])
              [0..<length w],
          map (\<lambda>f. real f * sf / real (length x)) [0..<(length x + 1) div 2])),
      f_ppf = (\<lambda>q d1 d2. q / (1 - q))\<rparr>"

section \<open>The segment planner as the specification words it\<close>


text \<open>
  The specification's cost of a size \<open>N\<close>: \<open>ceil(n_tot / (N - n_h + 1)) * N * (log2 N + 1)\<close>.
\<close>

definition spec_cost :: "nat \<Rightarrow> int \<Rightarrow> nat \<Rightarrow> int" where
  "spec_cost n_h n_tot N = ceil_div n_tot (int N - int n_h + 1) * int N * (int (flog2 N) + 1)"

section \<open>Properties of the primitives\<close>

lemma flog2_bounds: "0 < n \<Longrightarrow> 2 ^ flog2 n \<le> n \<and> n < 2 ^ Suc (flog2 n)"
proof (induction n rule: flog2.induct)
  case (1 n)
  show ?case
  proof (cases "n < 2")
    case True
    with "1.prems" show ?thesis by (simp add: flog2.simps [of n])
  next
    case False
    then have pos: "0 < n div 2" by simp
    from "1.IH" [OF False pos]
    have ih: "2 ^ flog2 (n div 2) \<le> n div 2" "n div 2 < 2 ^ Suc (flog2 (n div 2))" by simp_all
    have eq: "flog2 n = Suc (flog2 (n div 2))" using False by (simp add: flog2.simps [of n])
    from ih show ?thesis unfolding eq by auto
  qed
qed

lemma clog2_bounds: "0 < n \<Longrightarrow> n \<le> 2 ^ clog2 n \<and> (1 < n \<longrightarrow> 2 ^ (clog2 n - 1) < n)"
proof (cases "n \<le> 1")
  case True
  then show "0 < n \<Longrightarrow> ?thesis" by (simp add: clog2_def)
next
  case False
  then have pos: "0 < n - 1" by simp
  from flog2_bounds [OF pos] have "2 ^ flog2 (n - 1) \<le> n - 1" "n - 1 < 2 ^ Suc (flog2 (n - 1))"
    by simp_all
  with False show "0 < n \<Longrightarrow> ?thesis" by (auto simp: clog2_def)
qed

lemma ceil_div_ceiling: "ceil_div a b = \<lceil>real_of_int a / real_of_int b\<rceil>"
  by (simp add: ceil_div_def ceiling_divide_eq_div)








lemma cost_integer_quotient_example:
  "choose_n_fft 2 4 True = Inr 4 \<and> cost 2 8 4 < cost 2 8 2 \<and> spec_cost 2 8 2 < spec_cost 2 8 4"
  by (simp add: choose_n_fft_def fft_sizes_def cost_def spec_cost_def clog2_def ceil_div_def
      flog2.simps upt_rec)




lemma assign_row_frame:
  "assign_row x p r = Inr x' \<Longrightarrow> length x' = length x \<and> (j \<noteq> p \<longrightarrow> x' ! j = x ! j)"
  by (auto simp: assign_row_def split: if_splits)

lemma filter_rows_seq_frame:
  "j \<notin> set ps \<Longrightarrow>
     fst (filter_rows_seq f x ps) ! j = x ! j \<and> length (fst (filter_rows_seq f x ps)) = length x"
proof (induction ps arbitrary: x)
  case Nil
  then show ?case by simp
next
  case (Cons p ps)
  then have jp: "j \<noteq> p" and js: "j \<notin> set ps" by auto
  show ?case
  proof (cases "length x \<le> p")
    case True
    then show ?thesis by simp
  next
    case False
    show ?thesis
    proof (cases "f (x ! p)")
      case (Inl e)
      with False show ?thesis by simp
    next
      case (Inr r)
      show ?thesis
      proof (cases "assign_row x p r")
        case (Inl e)
        with False Inr show ?thesis by simp
      next
        case (Inr x')
        from assign_row_frame [OF Inr, of j] jp
        have fr: "x' ! j = x ! j" "length x' = length x" by simp_all
        from Cons.IH [OF js, of x'] fr False \<open>f (x ! p) = Inr r\<close> Inr
        show ?thesis by simp
      qed
    qed
  qed
qed

lemma assign_rows_frame:
  "j \<notin> fst ` set prs \<Longrightarrow>
     fst (assign_rows x prs) ! j = x ! j \<and> length (fst (assign_rows x prs)) = length x"
proof (induction prs arbitrary: x)
  case Nil
  then show ?case by simp
next
  case (Cons pr prs)
  obtain p r where pr: "pr = (p, r)" by (cases pr)
  with Cons.prems have jp: "j \<noteq> p" and js: "j \<notin> fst ` set prs" by auto
  show ?case
  proof (cases "assign_row x p r")
    case (Inl e)
    with pr show ?thesis by simp
  next
    case (Inr x')
    from assign_row_frame [OF Inr, of j] jp
    have fr: "x' ! j = x ! j" "length x' = length x" by simp_all
    from Cons.IH [OF js, of x'] fr pr Inr show ?thesis by simp
  qed
qed

lemma filter_rows_par_frame:
  assumes "j \<notin> set ps"
  shows "fst (filter_rows_par f x ps) ! j = x ! j \<and> length (fst (filter_rows_par f x ps)) = length x"
proof (cases "compute_rows f x ps")
  case (Inl e)
  then show ?thesis by (simp add: filter_rows_par_def)
next
  case (Inr rs)
  have "fst ` set (zip ps rs) \<subseteq> set ps" by (auto dest: set_zip_leftD)
  with assms have "j \<notin> fst ` set (zip ps rs)" by blast
  from assign_rows_frame [OF this, of x] Inr show ?thesis by (simp add: filter_rows_par_def)
qed

lemma overlap_add_filter_frame:
  assumes "j \<notin> set ps"
  shows "data (overlap_add_filter ext x h n_fft zero_phase (Some ps) n_jobs) ! j = x ! j \<and>
         length (data (overlap_add_filter ext x h n_fft zero_phase (Some ps) n_jobs)) = length x"
  using filter_rows_seq_frame [OF assms] filter_rows_par_frame [OF assms]
  by (simp add: overlap_add_filter_def Let_def split: sum.splits option.splits)

lemma filter_fir_frame:
  assumes "j \<notin> set ps"
  shows "data (filter_fir ext x Fs freq gain filter_length (Some ps) n_jobs) ! j = x ! j \<and>
         length (data (filter_fir ext x Fs freq gain filter_length (Some ps) n_jobs)) = length x"
  using filter_rows_seq_frame [OF assms] filter_rows_par_frame [OF assms]
    overlap_add_filter_frame [OF assms]
  by (simp add: filter_fir_def Let_def split: sum.splits option.splits)

lemma mt_rows_seq_frame:
  "j \<notin> set ps \<Longrightarrow>
     mt_data (mt_rows_seq rm ps rows s) ! j = mt_data s ! j \<and>
     length (mt_data (mt_rows_seq rm ps rows s)) = length (mt_data s)"
proof (induction rows arbitrary: s)
  case Nil
  then show ?case by simp
next
  case (Cons ii rows)
  show ?case
  proof (cases "ii \<in> set ps")
    case False
    with Cons show ?thesis by simp
  next
    case True
    with Cons.prems have ji: "j \<noteq> ii" by auto
    show ?thesis
    proof (cases "rm (mt_data s ! ii) (mt_widths s)")
      case (Inl e)
      with True show ?thesis by simp
    next
      case (Inr r)
      show ?thesis
      proof (cases "assign_row (mt_data s) ii (cleaned r)")
        case (Inl e)
        with True Inr show ?thesis by simp
      next
        case (Inr x')
        from assign_row_frame [OF Inr, of j] ji
        have fr: "x' ! j = mt_data s ! j" "length x' = length (mt_data s)" by simp_all
        from Cons.IH [OF Cons.prems,
            of "s\<lparr>mt_data := x', mt_widths := widths r, freq_list := freq_list s @ [rm_freqs r]\<rparr>"]
          fr True \<open>rm (mt_data s ! ii) (mt_widths s) = Inr r\<close> Inr
        show ?thesis by simp
      qed
    qed
  qed
qed

lemma mt_rows_par_frame:
  assumes "j \<notin> set ps"
  shows "mt_data (mt_rows_par rm ps x nw) ! j = x ! j \<and>
         length (mt_data (mt_rows_par rm ps x nw)) = length x"
proof (cases "mt_compute rm x nw (filter (\<lambda>ii. ii \<in> set ps) [0..<length x])")
  case (Inl e)
  then show ?thesis by (simp add: mt_rows_par_def)
next
  case (Inr rs)
  have "fst ` set (zip ps rows) \<subseteq> set ps" for rows :: "signal list"
    by (auto dest: set_zip_leftD)
  with assms have "j \<notin> fst ` set (zip ps rows)" for rows :: "signal list" by blast
  from assign_rows_frame [OF this, of x] Inr show ?thesis
    by (simp add: mt_rows_par_def Let_def)
qed

lemma cmod_cos_Arg: "cmod c * cos (Arg c) = Re c"
  by (cases "c = 0") (simp_all add: cos_Arg)

lemma datafit_at_0:
  "datafit x_p H0 n_tapers freqs sfreq inds 0 = (\<Sum>ind\<leftarrow>inds. Re (2 * amplitude x_p H0 n_tapers ind))"
  by (simp add: datafit_def Let_def cmod_cos_Arg del: Re_complex_div_eq_0)

lemma mt_spectrum_remove_auto:
  assumes "mt_setup ext x sfreq mt_bandwidth = Inr (n_tapers, H0, x_p, freqs)" and "x \<noteq> []"
  shows "mt_spectrum_remove ext x sfreq None notch_widths mt_bandwidth p_value =
           Inr \<lparr>cleaned = map (\<lambda>t. x ! t - datafit x_p H0 n_tapers freqs sfreq
                                  (detected_indices ext x_p H0 n_tapers (length freqs) p_value (length x)) t)
                             [0..<length x],
                rm_freqs = map (\<lambda>i. freqs ! i)
                             (detected_indices ext x_p H0 n_tapers (length freqs) p_value (length x)),
                widths = notch_widths\<rparr>"
  using assms by (simp add: mt_spectrum_remove_def Let_def)

lemma tapers_2: "tapers_odd 2 = [0] \<and> tapers_even 2 = [1]"
  by code_simp

lemma demo_f_ppf: "f_ppf demo_ext q d1 d2 = q / (1 - q)"
  by (simp add: demo_ext_def)

lemma demo_setup_4:
  "mt_setup demo_ext [7, 1, 0, 0] 4 (Some 2) = Inr (2, [1], [[7, 1], [1, 0]], [0, 1])"
  by code_simp

lemma demo_f_4:
  "f_den [[7, 1], [1, 0]] [1] 2 0 = 1 \<and> f_stat [[7, 1], [1, 0]] [1] 2 0 = 49 \<and>
   f_den [[7, 1], [1, 0]] [1] 2 1 = 0 \<and> f_stat [[7, 1], [1, 0]] [1] 2 1 = 0"
  by (simp add: f_stat_def f_den_def f_num_def amplitude_def x_p_H0_def H0_sq_of_def tapers_2)

lemma demo_threshold_4: "threshold demo_ext (1 / 20) 4 2 = 79"
  by (simp add: threshold_def demo_f_ppf)

lemma demo_detected_4:
  "detected_indices demo_ext [[7, 1], [1, 0]] [1] 2 (length [0, 1 :: real]) (1 / 20)
     (length [7, 1, 0, 0 :: real]) = []"
proof -
  have l2: "length [0, 1 :: real] = 2" by simp
  have l4: "length [7, 1, 0, 0 :: real] = 4" by simp
  have u: "[0..<2] = [0, Suc 0]" by code_simp
  show ?thesis unfolding l2 l4
    by (simp add: detected_indices_def u demo_f_4 [unfolded One_nat_def] demo_threshold_4)
qed

lemma overlap_add_filter_demo:
  "overlap_add_filter demo_ext [[1, 2], [3, 4]] [1, 1] (Some 2) False (Some [0]) 1
     = \<lparr>data = [[1, 3], [3, 4]], warns = [], raised = None\<rparr>"
proof -
  have u: "[0..<4] = [0, 1, 2, 3]" by code_simp
  have f1: "fft demo_ext = small_fft" by (simp add: demo_ext_def)
  have f2: "fft_multiply_repeated demo_ext = small_fft_multiply" by (simp add: demo_ext_def)
  have xe: "x_ext [1, 2] (Suc (Suc 0)) = Inr [0, 1, 2, 3]"
    by (simp add: x_ext_def py_slice_rev_def Let_def upt_rec)
  have p2: "is_power2 2" by (simp add: is_power2_def)
  show ?thesis
    by (simp add: overlap_add_filter_def Let_def shape1_def p2 f1 f2 small_fft_def
        overlap_filter_1d_def filter_extended_def xe u py_slice_def add_block_def
        small_fft_multiply_def
        assign_row_def)
qed

lemma mt_spectrum_remove_explicit:
  assumes "mt_setup ext x sfreq mt_bandwidth = Inr (n_tapers, H0, x_p, freqs)"
    and "indices_1 freqs lfs = Inr i1"
  shows "mt_spectrum_remove ext x sfreq (Some lfs) notch_widths mt_bandwidth p_value =
           Inr \<lparr>cleaned = map (\<lambda>t. x ! t - datafit x_p H0 n_tapers freqs sfreq
                     (sort (remdups (i1 @ indices_2 freqs lfs (map (\<lambda>w. w / 2) notch_widths)))) t)
                   [0..<length x],
                rm_freqs = map (\<lambda>i. freqs ! i)
                   (sort (remdups (i1 @ indices_2 freqs lfs (map (\<lambda>w. w / 2) notch_widths)))),
                widths = map (\<lambda>w. w / 2) notch_widths\<rparr>"
  using assms by (simp add: mt_spectrum_remove_def Let_def)

lemma demo_setup_8:
  "mt_setup demo_ext [1, 1, 1, 1, 0, 0, 0, 0] 8 (Some 2)
     = Inr (2, [1], [[1, 1, 1, 1], [1, 1, 1, 0]], [0, 1, 2, 3])"
  by code_simp

lemma demo_indices_1: "indices_1 [0, 1, 2, 3] [2] = Inr [2]"
  by code_simp

lemma demo_indices_wide:
  "sort (remdups ([2] @ indices_2 [0, 1, 2, 3] [2] [3 / 2])) = [1, 2, 3]"
  by code_simp

lemma demo_indices_narrow:
  "sort (remdups ([2] @ indices_2 [0, 1, 2, 3] [2] [3 / 2 / 2])) = [2]"
  by code_simp

lemma demo_amplitude_8:
  "amplitude [[1, 1, 1, 1], [1, 1, 1, 0]] [1] 2 1 = 1 \<and>
   amplitude [[1, 1, 1, 1], [1, 1, 1, 0]] [1] 2 2 = 1 \<and>
   amplitude [[1, 1, 1, 1], [1, 1, 1, 0]] [1] 2 3 = 1"
  by (simp add: amplitude_def x_p_H0_def H0_sq_of_def tapers_2)

lemma mt_rows_seq_two:
  assumes "rm r0 nw = Inr \<lparr>cleaned = c0, rm_freqs = f0, widths = nw1\<rparr>"
    and "rm r1 nw1 = Inr \<lparr>cleaned = c1, rm_freqs = f1, widths = nw2\<rparr>"
    and "length c0 = length r0" and "length c1 = length r1"
  shows "mt_rows_seq rm [0, 1] [0, 1]
           \<lparr>mt_data = [r0, r1], mt_widths = nw, freq_list = [], mt_raised = None\<rparr>
         = \<lparr>mt_data = [c0, c1], mt_widths = nw2, freq_list = [f0, f1], mt_raised = None\<rparr>"
  using assms by (simp add: assign_row_def)

lemma mt_rows_seq_one:
  assumes "rm r0 nw = Inr \<lparr>cleaned = c0, rm_freqs = f0, widths = nw1\<rparr>"
    and "length c0 = length r0"
  shows "mt_rows_seq rm [0] [0]
           \<lparr>mt_data = [r0], mt_widths = nw, freq_list = [], mt_raised = None\<rparr>
         = \<lparr>mt_data = [c0], mt_widths = nw1, freq_list = [f0], mt_raised = None\<rparr>"
  using assms by (simp add: assign_row_def)

lemma demo_fields:
  "firwin2 demo_ext N fr g = replicate N 1"
  "fft demo_ext = small_fft"
  "fft_multiply_repeated demo_ext = small_fft_multiply"
  "filter_attenuation demo_ext H fr g = (40, 0)"
  by (simp_all add: demo_ext_def)





lemma detection_threshold_sample_count:
  assumes "mt_setup ext x sfreq mt_bandwidth = Inr (n_tapers, H0, x_p, freqs)"
    and "x \<noteq> []"
  shows "\<exists>inds. mt_spectrum_remove ext x sfreq None notch_widths mt_bandwidth p_value =
              Inr \<lparr>cleaned = map (\<lambda>t. x ! t - datafit x_p H0 n_tapers freqs sfreq inds t)
                                [0..<length x],
                   rm_freqs = map (\<lambda>i. freqs ! i) inds,
                   widths = notch_widths\<rparr> \<and>
           (\<forall>f. f \<in> set inds \<longleftrightarrow>
                f < length freqs \<and>
                f_stat x_p H0 n_tapers f
                  > f_ppf ext (1 - p_value / real (length x)) 2 (2 * int n_tapers - 2))"
proof -
  let ?inds = "detected_indices ext x_p H0 n_tapers (length freqs) p_value (length x)"
  have "\<forall>f. f \<in> set ?inds \<longleftrightarrow>
            f < length freqs \<and>
            f_stat x_p H0 n_tapers f
              > f_ppf ext (1 - p_value / real (length x)) 2 (2 * int n_tapers - 2)"
    by (auto simp: detected_indices_def threshold_def)
  with mt_spectrum_remove_auto [OF assms] show ?thesis by blast
qed

section \<open>The claims\<close>

text \<open>
  Claim C1 (Nyquist parity of the kernel length in \<open>_filter\<close>). The claim and the
  comments of lines 282 and 318 ask for an even \<open>N\<close> when the gain at Nyquist is 1 and
  an odd \<open>N\<close> when it is 0. The code increments \<open>N\<close> in exactly the opposite cases:
  with gain 1 a requested length 10 becomes 11 and a signal of 4 samples is extended to
  5; with gain 0 a length 7 becomes 8 in both branches.
\<close>

theorem nyquist_parity_reversed:
  "ola_N 1 10 = 11 \<and> odd (ola_N 1 10) \<and> direct_N 1 4 = 5 \<and> odd (direct_N 1 4) \<and>
   ola_N 0 7 = 8 \<and> even (ola_N 0 7) \<and> direct_N 0 7 = 8 \<and> even (direct_N 0 7)"
  by (simp add: ola_N_def direct_N_def extend_x_def)

text \<open>
  Claim C3 (FFT length shorter than the kernel). When the requested \<open>n_fft\<close> is below
  the kernel length \<open>len(h)\<close>, \<open>_overlap_add_filter\<close> raises before the loop over the
  channels: the array is left as it was. The exception is the explicit one of line 101
  for \<open>n_fft \<le> 0\<close> and the one of \<open>np.zeros(n_fft - n_h)\<close> in line 107 otherwise.
\<close>

theorem overlap_add_filter_short_n_fft:
  "n_fft < int (length h) \<Longrightarrow>
     data (overlap_add_filter ext x h (Some n_fft) zero_phase picks n_jobs) = x \<and>
     (raised (overlap_add_filter ext x h (Some n_fft) zero_phase picks n_jobs) = Some NFftTooShort \<or>
      raised (overlap_add_filter ext x h (Some n_fft) zero_phase picks n_jobs) = Some NegativeDimensions)"
  by (simp add: overlap_add_filter_def Let_def)

theorem overlap_add_filter_short_n_fft_witness:
  "(2::int) < int (length [1, 2, 3 :: real]) \<and>
   data (overlap_add_filter demo_ext [[1, 2, 3, 4], [5, 6, 7, 8]] [1, 2, 3] (Some 2) True None 1)
     = [[1, 2, 3, 4], [5, 6, 7, 8]] \<and>
   raised (overlap_add_filter demo_ext [[1, 2, 3, 4], [5, 6, 7, 8]] [1, 2, 3] (Some 2) True None 1)
     = Some NegativeDimensions"
proof -
  have h: "(2::int) < int (length [1, 2, 3 :: real])" by simp
  have r: "raised (overlap_add_filter demo_ext [[1, 2, 3, 4], [5, 6, 7, 8]] [1, 2, 3] (Some 2) True None 1)
             = Some NegativeDimensions"
    by (simp add: overlap_add_filter_def Let_def)
  from h r overlap_add_filter_short_n_fft [OF h, of demo_ext "[[1, 2, 3, 4], [5, 6, 7, 8]]" True None 1]
  show ?thesis by simp
qed








text \<open>
  Claim C10 (rows outside \<open>picks\<close>). In \<open>_overlap_add_filter\<close>, in both branches of
  \<open>_filter\<close> and in \<open>_mt_spectrum_proc\<close>, with one job or several, a row whose number
  is not in \<open>picks\<close> is in the resulting array what it was in the argument, also when
  the call ends in an exception.
\<close>

theorem unpicked_rows_unchanged:
  assumes "j < length x" "j \<notin> set picks"
  shows "data (overlap_add_filter ext x h n_fft zero_phase (Some picks) n_jobs) ! j = x ! j \<and>
         data (filter_fir ext x Fs freq gain filter_length (Some picks) n_jobs) ! j = x ! j \<and>
         mt_data (mt_spectrum_proc ext x sfreq line_freqs notch_widths mt_bandwidth p_value
                    (Some picks) n_jobs) ! j = x ! j"
  using overlap_add_filter_frame [OF assms(2)] filter_fir_frame [OF assms(2)]
    mt_rows_seq_frame [OF assms(2)] mt_rows_par_frame [OF assms(2)]
  by (simp add: mt_spectrum_proc_def Let_def)

text \<open>
  Claim C7 (zero denominator of the F statistic). In detection mode, a bin whose
  denominator is zero gets the statistic \<open>num / inf = 0\<close>. The threshold is a
  quantile of an F distribution, hence not negative, so the bin is not among the
  selected indices, and the sinusoids subtracted from the data are those of the
  selected indices only.
\<close>

theorem zero_denominator_never_flagged:
  assumes "mt_setup ext x sfreq mt_bandwidth = Inr (n_tapers, H0, x_p, freqs)"
    and "x \<noteq> []"
    and "0 \<le> threshold ext p_value (length x) n_tapers"
    and "f_den x_p H0 n_tapers f = 0"
  shows "f_stat x_p H0 n_tapers f = 0 \<and>
         (\<exists>inds. f \<notin> set inds \<and>
            mt_spectrum_remove ext x sfreq None notch_widths mt_bandwidth p_value =
              Inr \<lparr>cleaned = map (\<lambda>t. x ! t - datafit x_p H0 n_tapers freqs sfreq inds t)
                                [0..<length x],
                   rm_freqs = map (\<lambda>i. freqs ! i) inds,
                   widths = notch_widths\<rparr>)"
proof -
  let ?inds = "detected_indices ext x_p H0 n_tapers (length freqs) p_value (length x)"
  from assms(4) have z: "f_stat x_p H0 n_tapers f = 0" by (simp add: f_stat_def)
  with assms(3) have "f \<notin> set ?inds" by (simp add: detected_indices_def)
  with z mt_spectrum_remove_auto [OF assms(1,2)] show ?thesis by blast
qed

theorem zero_denominator_never_flagged_witness:
  "mt_setup demo_ext [7, 1, 0, 0] 4 (Some 2) = Inr (2, [1], [[7, 1], [1, 0]], [0, 1]) \<and>
   0 \<le> threshold demo_ext (1 / 20) (length [7, 1, 0, 0 :: real]) 2 \<and>
   f_den [[7, 1], [1, 0]] [1] 2 1 = 0 \<and>
   f_stat [[7, 1], [1, 0]] [1] 2 1 = 0 \<and>
   (\<exists>inds. 1 \<notin> set inds \<and>
      mt_spectrum_remove demo_ext [7, 1, 0, 0] 4 None [] (Some 2) (1 / 20) =
        Inr \<lparr>cleaned = map (\<lambda>t. [7, 1, 0, 0] ! t
                                 - datafit [[7, 1], [1, 0]] [1] 2 [0, 1] 4 inds t)
                           [0..<length [7, 1, 0, 0 :: real]],
             rm_freqs = map (\<lambda>i. [0, 1] ! i) inds,
             widths = []\<rparr>)"
proof -
  have h2: "[7, 1, 0, 0 :: real] \<noteq> []" by simp
  have l4: "length [7, 1, 0, 0 :: real] = 4" by simp
  have h3: "0 \<le> threshold demo_ext (1 / 20) (length [7, 1, 0, 0 :: real]) 2"
    unfolding l4 demo_threshold_4 by simp
  have h4: "f_den [[7, 1], [1, 0]] [1] 2 1 = 0" using demo_f_4 by blast
  from zero_denominator_never_flagged [OF demo_setup_4 h2 h3 h4, of "[]"] demo_setup_4 h3 h4
  show ?thesis by blast
qed

text \<open>
  Claim C4 (detection threshold). The claim and the docstring of \<open>notch_filter\<close>
  (lines 907-911, "Bonferroni corrected for the number of frequencies") take \<open>n\<close> to be
  the number of frequency bins tested; line 1097 divides \<open>p_value\<close> by \<open>n_times\<close>, the
  number of time samples. For a channel of four samples with two bins and two tapers at
  \<open>p = 0.05\<close>, the statistic 49 of bin 0 exceeds the quantile 39 for \<open>n = 2\<close>, but not
  the threshold 79 that the code computes for \<open>n = 4\<close>, and no bin is selected.
\<close>

theorem detection_threshold_divides_by_n_times:
  "mt_spectrum_remove demo_ext [7, 1, 0, 0] 4 None [] (Some 2) (1 / 20)
     = Inr \<lparr>cleaned = [7, 1, 0, 0], rm_freqs = [], widths = []\<rparr> \<and>
   mt_setup demo_ext [7, 1, 0, 0] 4 (Some 2) = Inr (2, [1], [[7, 1], [1, 0]], [0, 1]) \<and>
   f_stat [[7, 1], [1, 0]] [1] 2 0 = 49 \<and>
   f_ppf demo_ext (1 - (1 / 20) / real (length [0, 1 :: real])) 2 (2 * int 2 - 2) = 39 \<and>
   threshold demo_ext (1 / 20) 4 2 = 79"
proof -
  have h2: "[7, 1, 0, 0 :: real] \<noteq> []" by simp
  have u: "[0..<4] = [0, 1, 2, 3]" by code_simp
  have r: "mt_spectrum_remove demo_ext [7, 1, 0, 0] 4 None [] (Some 2) (1 / 20)
             = Inr \<lparr>cleaned = [7, 1, 0, 0], rm_freqs = [], widths = []\<rparr>"
    unfolding mt_spectrum_remove_auto [OF demo_setup_4 h2] demo_detected_4
    by (simp add: datafit_def u)
  have q: "f_ppf demo_ext (1 - (1 / 20) / real (length [0, 1 :: real])) 2 (2 * int 2 - 2) = 39"
    by (simp add: demo_f_ppf)
  from r q demo_setup_4 demo_f_4 demo_threshold_4 show ?thesis by simp
qed

theorem unpicked_rows_unchanged_witness:
  "(1::nat) < length [[1, 2], [3, 4 :: real]] \<and> 1 \<notin> set [0 :: nat] \<and>
   data (overlap_add_filter demo_ext [[1, 2], [3, 4]] [1, 1] (Some 2) False (Some [0]) 1) ! 1
     = [3, 4] \<and>
   data (overlap_add_filter demo_ext [[1, 2], [3, 4]] [1, 1] (Some 2) False (Some [0]) 1) ! 0
     = [1, 3] \<and>
   data (filter_fir demo_ext [[1, 2], [3, 4]] 2 [0, 1] [1, 1] None (Some [0]) 1) ! 1 = [3, 4] \<and>
   mt_data (mt_spectrum_proc demo_ext [[1, 2], [3, 4]] 2 (Some [1]) [1] None (1 / 20)
              (Some [0]) 1) ! 1 = [3, 4]"
proof -
  have h1: "(1::nat) < length [[1, 2], [3, 4 :: real]]" by simp
  have h2: "1 \<notin> set [0 :: nat]" by simp
  have e: "[[1, 2], [3, 4 :: real]] ! 1 = [3, 4]" by simp
  from unpicked_rows_unchanged [OF h1 h2, of demo_ext "[1, 1]" "Some 2" False 1 2 "[0, 1]" "[1, 1]"
      None 2 "Some [1]" "[1]" None "1 / 20"] h1 h2
  show ?thesis unfolding e by (simp add: overlap_add_filter_demo)
qed

text \<open>
  Claim C2 (channels independent of each other in \<open>spectrum_fit\<close> with explicit line
  frequencies). With \<open>n_jobs == 1\<close> every call of \<open>_mt_spectrum_remove\<close> halves the
  shared array \<open>notch_widths\<close> in place (line 1106), so a channel is cleaned with
  narrower notches the more channels came before it. With a line at 2 Hz of width 3 Hz
  on a frequency axis of 0, 1, 2, 3 Hz, a channel processed alone loses the bins at 1,
  2 and 3 Hz and its first sample becomes \<open>-5\<close>; the same channel processed second loses
  the bin at 2 Hz only and its first sample becomes \<open>-1\<close>.
\<close>

theorem notch_widths_halved_between_channels:
  "mt_data (mt_spectrum_proc demo_ext [[1, 1, 1, 1, 0, 0, 0, 0]] 8 (Some [2]) [3] (Some 2)
              (1 / 20) None 1) ! 0 ! 0 = - 5 \<and>
   mt_data (mt_spectrum_proc demo_ext [[1, 1, 1, 1, 0, 0, 0, 0], [1, 1, 1, 1, 0, 0, 0, 0]] 8
              (Some [2]) [3] (Some 2) (1 / 20) None 1) ! 1 ! 0 = - 1 \<and>
   mt_widths (mt_spectrum_proc demo_ext [[1, 1, 1, 1, 0, 0, 0, 0], [1, 1, 1, 1, 0, 0, 0, 0]] 8
              (Some [2]) [3] (Some 2) (1 / 20) None 1) = [3 / 4]"
proof -
  define r :: signal where "r = [1, 1, 1, 1, 0, 0, 0, 0]"
  define X :: "complex list list" where "X = [[1, 1, 1, 1], [1, 1, 1, 0]]"
  define F :: "real list" where "F = [0, 1, 2, 3]"
  define cA where "cA = map (\<lambda>t. r ! t - datafit X [1] 2 F 8 [1, 2, 3] t) [0..<length r]"
  define cB where "cB = map (\<lambda>t. r ! t - datafit X [1] 2 F 8 [2] t) [0..<length r]"
  define rm where
    "rm = (\<lambda>row nw. mt_spectrum_remove demo_ext row 8 (Some [2]) nw (Some 2) (1 / 20))"
  have len: "length r = 8" by (simp add: r_def)
  have r0: "r ! 0 = 1" by (simp add: r_def)
  have stp: "mt_setup demo_ext r 8 (Some 2) = Inr (2, [1], X, F)"
    unfolding r_def X_def F_def by (rule demo_setup_8)
  have i1: "indices_1 F [2] = Inr [2]" unfolding F_def by (rule demo_indices_1)
  have remA: "rm r [3] = Inr \<lparr>cleaned = cA, rm_freqs = map (\<lambda>i. F ! i) [1, 2, 3], widths = [3 / 2]\<rparr>"
    unfolding rm_def cA_def mt_spectrum_remove_explicit [OF stp i1]
    by (simp only: list.map demo_indices_wide [folded F_def])
  have remB: "rm r [3 / 2] = Inr \<lparr>cleaned = cB, rm_freqs = map (\<lambda>i. F ! i) [2], widths = [3 / 2 / 2]\<rparr>"
    unfolding rm_def cB_def mt_spectrum_remove_explicit [OF stp i1]
    by (simp only: list.map demo_indices_narrow [folded F_def])
  have lA: "length cA = length r" and lB: "length cB = length r" by (simp_all add: cA_def cB_def)
  have hA: "cA ! 0 = - 5"
    by (simp add: cA_def len r0 datafit_at_0 demo_amplitude_8 [folded X_def]
        demo_amplitude_8 [folded X_def, unfolded One_nat_def])
  have hB: "cB ! 0 = - 1"
    by (simp add: cB_def len r0 datafit_at_0 demo_amplitude_8 [folded X_def])
  have one: "mt_spectrum_proc demo_ext [r] 8 (Some [2]) [3] (Some 2) (1 / 20) None 1
               = \<lparr>mt_data = [cA], mt_widths = [3 / 2],
                  freq_list = [map (\<lambda>i. F ! i) [1, 2, 3]], mt_raised = None\<rparr>"
    using mt_rows_seq_one [where rm = rm and ?r0.0 = r and nw = "[3]", OF remA lA]
    by (simp add: mt_spectrum_proc_def Let_def rm_def)
  have two: "mt_spectrum_proc demo_ext [r, r] 8 (Some [2]) [3] (Some 2) (1 / 20) None 1
               = \<lparr>mt_data = [cA, cB], mt_widths = [3 / 2 / 2],
                  freq_list = [map (\<lambda>i. F ! i) [1, 2, 3], map (\<lambda>i. F ! i) [2]],
                  mt_raised = None\<rparr>"
    using mt_rows_seq_two [where rm = rm and ?r0.0 = r and ?r1.0 = r and nw = "[3]", OF remA remB lA lB]
    by (simp add: mt_spectrum_proc_def Let_def rm_def)
  show ?thesis
    unfolding one [unfolded r_def] two [unfolded r_def] by (simp add: hA hB)
qed

text \<open>
  Claim C6 (zero-length input), as amended. \<open>resample\<close> is the operation with a
  branch for it: when \<open>x\<close> has zero length along \<open>axis\<close> (and \<open>down\<close> is not zero),
  it issues the warning and returns \<open>x\<close> unmodified.
\<close>

theorem resample_zero_length:
  assumes "down \<noteq> 0" and "axis \<le> int (length (shape x))"
    and "py_index (shape x) axis = Inr 0"
  shows "resample resample_body x up down npad axis = Inr ([ZeroLength axis], x)"
  using assms by (simp add: resample_def Let_def)

theorem resample_zero_length_witness:
  "(2::real) \<noteq> 0 \<and> (1::int) \<le> int (length (shape \<lparr>shape = [3, 0], elems = []\<rparr>)) \<and>
   py_index (shape \<lparr>shape = [3, 0], elems = []\<rparr>) 1 = Inr 0 \<and>
   resample (\<lambda>x ratio npad axis. x) \<lparr>shape = [3, 0], elems = []\<rparr> 1 2 100 1
     = Inr ([ZeroLength 1], \<lparr>shape = [3, 0], elems = []\<rparr>)"
proof -
  have h1: "(2::real) \<noteq> 0" by simp
  have h2: "(1::int) \<le> int (length (shape \<lparr>shape = [3, 0], elems = []\<rparr>))" by simp
  have h3: "py_index (shape \<lparr>shape = [3, 0], elems = []\<rparr>) 1 = Inr 0"
    by (simp add: py_index_def)
  from resample_zero_length [OF h1 h2 h3, of "\<lambda>x ratio npad axis. x" 1 100] h1 h2 h3
  show ?thesis by blast
qed

text \<open>
  Claim C6 as stated, for every operation, fails for \<open>_filter\<close>: on one channel of
  zero samples with gain 1 at Nyquist the signal is to be extended by its last sample,
  and \<open>x[-1]\<close> raises an \<open>IndexError\<close>; no warning is issued.
\<close>

theorem filter_zero_length_counterexample:
  "filter_fir demo_ext [[]] 2 [0, 1] [1, 1] None None 1
     = \<lparr>data = [[]], warns = [], raised = Some IndexOutOfRange\<rparr>"
  by (simp add: filter_fir_def Let_def py_index_def shape1_def extend_x_def direct_N_def
      demo_fields fftmult_ext_1d_def)

end
